theory Spec2Isabelle
  imports Complex_Main
begin

section \<open>JavaScript numbers\<close>

text \<open>
  The calculator of \<^verbatim>\<open>src/app/page.tsx\<close> computes on JavaScript numbers. (The repository
  holds a second revision of the page, with sliders for some of the fields; its \<open>clamp\<close>,
  \<open>toNum\<close>, \<open>calc\<close>, \<open>defaults\<close>, \<open>parsed\<close> and \<open>safetyNotes\<close> are the same text.) A number is
  modelled as NaN, one of the two infinities, or a finite rational. The special values follow
  IEEE 754: an operation on NaN is NaN, \<open>Infinity * 0\<close>, \<open>Infinity - Infinity\<close>,
  \<open>Infinity / Infinity\<close> and \<open>0 / 0\<close> are NaN, and a finite result whose magnitude reaches
  the overflow threshold \<open>2^1024 - 2^970\<close> of binary64 becomes an infinity. Below that
  threshold a finite result is kept exact: the rounding of the significand to 53 bits is not
  modelled. The two zeros are identified; the program never divides by a zero (every divisor
  is a non-zero literal or is guarded by \<open>> 0\<close> or by \<open>Math.max(1, _)\<close>), which is the only
  place in the calculation where they could be told apart.
\<close>

datatype jsnum = NaN | PInf | NInf | Fin rat

definition overflow_threshold :: rat where
  "overflow_threshold = 2 ^ 1024 - 2 ^ 970"

definition mk :: "rat \<Rightarrow> jsnum" where
  "mk r = (if overflow_threshold \<le> r then PInf
           else if r \<le> - overflow_threshold then NInf
           else Fin r)"

fun Number_isNaN :: "jsnum \<Rightarrow> bool" where
  "Number_isNaN NaN = True"
| "Number_isNaN _ = False"

fun Number_isFinite :: "jsnum \<Rightarrow> bool" where
  "Number_isFinite (Fin _) = True"
| "Number_isFinite _ = False"

fun js_neg :: "jsnum \<Rightarrow> jsnum" where
  "js_neg NaN = NaN"
| "js_neg PInf = NInf"
| "js_neg NInf = PInf"
| "js_neg (Fin a) = Fin (- a)"

fun js_add :: "jsnum \<Rightarrow> jsnum \<Rightarrow> jsnum" where
  "js_add NaN _ = NaN"
| "js_add _ NaN = NaN"
| "js_add PInf NInf = NaN"
| "js_add NInf PInf = NaN"
| "js_add PInf _ = PInf"
| "js_add NInf _ = NInf"
| "js_add _ PInf = PInf"
| "js_add _ NInf = NInf"
| "js_add (Fin a) (Fin b) = mk (a + b)"

definition js_sub :: "jsnum \<Rightarrow> jsnum \<Rightarrow> jsnum" where
  "js_sub x y = js_add x (js_neg y)"

text \<open>The sign of an infinite product or quotient: the infinity \<open>x\<close> if \<open>0 < s\<close>, its
  negation if \<open>s < 0\<close>.\<close>

definition signed :: "jsnum \<Rightarrow> rat \<Rightarrow> jsnum" where
  "signed x s = (if 0 < s then x else js_neg x)"

fun js_mul :: "jsnum \<Rightarrow> jsnum \<Rightarrow> jsnum" where
  "js_mul NaN _ = NaN"
| "js_mul _ NaN = NaN"
| "js_mul PInf PInf = PInf"
| "js_mul PInf NInf = NInf"
| "js_mul NInf PInf = NInf"
| "js_mul NInf NInf = PInf"
| "js_mul PInf (Fin b) = (if b = 0 then NaN else signed PInf b)"
| "js_mul NInf (Fin b) = (if b = 0 then NaN else signed NInf b)"
| "js_mul (Fin a) PInf = (if a = 0 then NaN else signed PInf a)"
| "js_mul (Fin a) NInf = (if a = 0 then NaN else signed NInf a)"
| "js_mul (Fin a) (Fin b) = mk (a * b)"

fun js_div :: "jsnum \<Rightarrow> jsnum \<Rightarrow> jsnum" where
  "js_div NaN _ = NaN"
| "js_div _ NaN = NaN"
| "js_div PInf PInf = NaN"
| "js_div PInf NInf = NaN"
| "js_div NInf PInf = NaN"
| "js_div NInf NInf = NaN"
| "js_div PInf (Fin b) = (if b < 0 then NInf else PInf)"
| "js_div NInf (Fin b) = (if b < 0 then PInf else NInf)"
| "js_div (Fin a) PInf = Fin 0"
| "js_div (Fin a) NInf = Fin 0"
| "js_div (Fin a) (Fin b) =
     (if b = 0 then (if a = 0 then NaN else signed PInf a) else mk (a / b))"

text \<open>The comparisons \<open><\<close>, \<open><=\<close>, \<open>>\<close>, \<open>>=\<close> and \<open>===\<close>: false as soon as one side is NaN.\<close>

fun js_lt :: "jsnum \<Rightarrow> jsnum \<Rightarrow> bool" where
  "js_lt NaN _ = False"
| "js_lt _ NaN = False"
| "js_lt PInf _ = False"
| "js_lt _ NInf = False"
| "js_lt NInf _ = True"
| "js_lt _ PInf = True"
| "js_lt (Fin a) (Fin b) = (a < b)"

fun js_eq :: "jsnum \<Rightarrow> jsnum \<Rightarrow> bool" where
  "js_eq NaN _ = False"
| "js_eq _ NaN = False"
| "js_eq x y = (x = y)"

definition js_gt :: "jsnum \<Rightarrow> jsnum \<Rightarrow> bool" where
  "js_gt x y = js_lt y x"

definition js_le :: "jsnum \<Rightarrow> jsnum \<Rightarrow> bool" where
  "js_le x y = (js_lt x y \<or> js_eq x y)"

definition js_ge :: "jsnum \<Rightarrow> jsnum \<Rightarrow> bool" where
  "js_ge x y = js_le y x"

text \<open>\<open>Math.max\<close> and \<open>Math.min\<close> of two arguments: NaN if either is NaN.\<close>

definition Math_max :: "jsnum \<Rightarrow> jsnum \<Rightarrow> jsnum" where
  "Math_max x y = (if Number_isNaN x \<or> Number_isNaN y then NaN
                   else if js_lt x y then y else x)"

definition Math_min :: "jsnum \<Rightarrow> jsnum \<Rightarrow> jsnum" where
  "Math_min x y = (if Number_isNaN x \<or> Number_isNaN y then NaN
                   else if js_lt y x then y else x)"

section \<open>JavaScript strings and \<open>Number(string)\<close>\<close>

text \<open>A string is its list of UTF-16 code units.\<close>

type_synonym jsstring = "nat list"

definition str :: "string \<Rightarrow> jsstring" where
  "str s = map of_char s"

text \<open>The class \<open>\s\<close> of a regular expression, which is also the \<open>StrWhiteSpaceChar\<close> that
  \<open>Number\<close> trims: TAB, LF, VT, FF, CR, SP, NBSP, U+1680, U+2000..U+200A, LS, PS, U+202F,
  U+205F, U+3000 and U+FEFF.\<close>

definition is_space :: "nat \<Rightarrow> bool" where
  "is_space c = (c \<in> {9, 10, 11, 12, 13, 32, 160, 5760, 8232, 8233, 8239, 8287, 12288, 65279}
                 \<or> (8192 \<le> c \<and> c \<le> 8202))"

definition is_digit :: "nat \<Rightarrow> bool" where
  "is_digit c = (48 \<le> c \<and> c \<le> 57)"

text \<open>The value of a digit in a base up to 16, if it is one.\<close>

definition digit_in :: "nat \<Rightarrow> nat \<Rightarrow> nat option" where
  "digit_in base c =
     (let v = (if 48 \<le> c \<and> c \<le> 57 then Some (c - 48)
               else if 97 \<le> c \<and> c \<le> 102 then Some (c - 87)
               else if 65 \<le> c \<and> c \<le> 70 then Some (c - 55)
               else None)
      in case v of None \<Rightarrow> None | Some d \<Rightarrow> if d < base then Some d else None)"

text \<open>The value of a non-empty string of digits of the base.\<close>

fun digits_from :: "nat \<Rightarrow> nat \<Rightarrow> jsstring \<Rightarrow> nat option" where
  "digits_from base acc [] = Some acc"
| "digits_from base acc (c # cs) =
     (case digit_in base c of None \<Rightarrow> None
      | Some d \<Rightarrow> digits_from base (acc * base + d) cs)"

definition digits_val :: "nat \<Rightarrow> jsstring \<Rightarrow> nat option" where
  "digits_val base cs = (if cs = [] then None else digits_from base 0 cs)"

text \<open>\<open>SignedInteger\<close> of an exponent part: an optional sign and decimal digits.\<close>

definition signed_integer :: "jsstring \<Rightarrow> int option" where
  "signed_integer cs =
     (case cs of
        [] \<Rightarrow> None
      | c # rest \<Rightarrow>
          if c = 45 then map_option (\<lambda>n. - int n) (digits_val 10 rest)
          else if c = 43 then map_option int (digits_val 10 rest)
          else map_option int (digits_val 10 cs))"

definition pow10 :: "int \<Rightarrow> rat" where
  "pow10 e = (if 0 \<le> e then 10 ^ nat e else 1 / 10 ^ nat (- e))"

text \<open>\<open>StrUnsignedDecimalLiteral\<close> without \<open>Infinity\<close>: digits, an optional point and
  fraction digits, with a digit on at least one side of the point, and an optional exponent.\<close>

definition unsigned_decimal :: "jsstring \<Rightarrow> rat option" where
  "unsigned_decimal cs =
     (let ip = takeWhile is_digit cs;
          r1 = dropWhile is_digit cs;
          dot = (r1 \<noteq> [] \<and> hd r1 = 46);
          fp = (if dot then takeWhile is_digit (tl r1) else []);
          r2 = (if dot then dropWhile is_digit (tl r1) else r1);
          ex = (if r2 = [] then Some 0
                else if hd r2 = 101 \<or> hd r2 = 69 then signed_integer (tl r2)
                else None)
      in if ip = [] \<and> fp = [] then None
         else case (digits_from 10 0 (ip @ fp), ex) of
                (Some m, Some e) \<Rightarrow> Some (of_nat m * pow10 (e - int (length fp)))
              | _ \<Rightarrow> None)"

text \<open>\<open>NonDecimalIntegerLiteral\<close>: \<open>0x\<close>, \<open>0o\<close>, \<open>0b\<close> (either case) and digits; no sign.\<close>

definition non_decimal :: "jsstring \<Rightarrow> nat option" where
  "non_decimal cs =
     (case cs of
        c0 # c1 # rest \<Rightarrow>
          if c0 \<noteq> 48 then None
          else if c1 = 120 \<or> c1 = 88 then digits_val 16 rest
          else if c1 = 111 \<or> c1 = 79 then digits_val 8 rest
          else if c1 = 98 \<or> c1 = 66 then digits_val 2 rest
          else None
      | _ \<Rightarrow> None)"

definition Infinity_lit :: jsstring where
  "Infinity_lit = str ''Infinity''"

definition str_decimal :: "jsstring \<Rightarrow> jsnum" where
  "str_decimal cs =
     (let neg = (cs \<noteq> [] \<and> hd cs = 45);
          body = (if cs \<noteq> [] \<and> (hd cs = 45 \<or> hd cs = 43) then tl cs else cs)
      in if body = Infinity_lit then (if neg then NInf else PInf)
         else case unsigned_decimal body of
                None \<Rightarrow> NaN
              | Some r \<Rightarrow> mk (if neg then - r else r))"

definition trim :: "jsstring \<Rightarrow> jsstring" where
  "trim cs = rev (dropWhile is_space (rev (dropWhile is_space cs)))"

text \<open>\<open>Number(s)\<close> for a string \<open>s\<close> (StringToNumber): the empty string is 0.\<close>

definition Number_str :: "jsstring \<Rightarrow> jsnum" where
  "Number_str s =
     (let cs = trim s
      in if cs = [] then Fin 0
         else case non_decimal cs of
                Some n \<Rightarrow> mk (of_nat n)
              | None \<Rightarrow> str_decimal cs)"

section \<open>The helpers \<open>clamp\<close> and \<open>toNum\<close>\<close>

definition clamp :: "jsnum \<Rightarrow> jsnum \<Rightarrow> jsnum \<Rightarrow> jsnum" where
  "clamp n lo hi = (if Number_isNaN n then lo else Math_min hi (Math_max lo n))"

text \<open>A raw field value is a string or a number (\<open>string | number\<close>).\<close>

datatype rawval = Str jsstring | Num jsnum

text \<open>\<open>v.replace(/\s/g, "")\<close> removes every white space character;
  \<open>.replace(",", ".")\<close> replaces the first comma only.\<close>

definition strip_spaces :: "jsstring \<Rightarrow> jsstring" where
  "strip_spaces s = filter (\<lambda>c. \<not> is_space c) s"

fun replace_comma :: "jsstring \<Rightarrow> jsstring" where
  "replace_comma [] = []"
| "replace_comma (c # cs) = (if c = 44 then 46 # cs else c # replace_comma cs)"

definition toNum :: "rawval \<Rightarrow> jsnum" where
  "toNum v =
     (let n = (case v of Str s \<Rightarrow> Number_str (replace_comma (strip_spaces s)) | Num x \<Rightarrow> x)
      in if Number_isFinite n then n else NaN)"

section \<open>The calculation\<close>

text \<open>The interfaces \<open>StateType\<close> and \<open>CalcInput\<close> have the same fields; the numeric ones
  are raw values in the first and numbers in the second.\<close>

record 'a CalcFields =
  beds :: 'a
  occupancyPct :: 'a
  alosDays :: 'a
  vriPer1000BedDays :: 'a
  vriPerYearOverride :: 'a
  gramNegPct :: 'a
  sinkAttributablePct :: 'a
  effectPct :: 'a
  extraDaysPerVRI :: 'a
  costPerBedDay :: 'a
  costPerVRI :: 'a
  pricingMode :: jsstring
  capex :: 'a
  opexYear :: 'a
  capexAmortYears :: 'a

type_synonym StateType = "rawval CalcFields"
type_synonym CalcInput = "jsnum CalcFields"

record Result =
  bedDays :: jsnum
  vri :: jsnum
  vriPer1000 :: jsnum
  gramNeg :: jsnum
  sinkGramNeg :: jsnum
  avoided :: jsnum
  savedBedDays :: jsnum
  savedSEK :: jsnum
  annualCost :: jsnum
  net :: jsnum
  roi :: jsnum
  paybackYears :: jsnum
  usedOverride :: bool
  vriFromRate :: jsnum

definition calc :: "CalcInput \<Rightarrow> Result" where
  "calc i =
     (let occupancy = clamp (js_div (occupancyPct i) (Fin 100)) (Fin 0) (Fin 1);
          bedDays' = js_mul (js_mul (beds i) (Fin 365)) occupancy;
          vriFromRate' = js_mul (js_div (vriPer1000BedDays i) (Fin 1000)) bedDays';
          vri' = (if Number_isFinite (vriPerYearOverride i) \<and> js_gt (vriPerYearOverride i) (Fin 0)
                  then vriPerYearOverride i else vriFromRate');
          gramNeg' = js_mul vri' (js_div (gramNegPct i) (Fin 100));
          sinkGramNeg' = js_mul gramNeg' (js_div (sinkAttributablePct i) (Fin 100));
          avoided' = js_mul sinkGramNeg' (js_div (effectPct i) (Fin 100));
          savedBedDays' = js_mul avoided' (extraDaysPerVRI i);
          savedSEK' = (if pricingMode i = str ''perVRI'' then js_mul avoided' (costPerVRI i)
                       else js_mul savedBedDays' (costPerBedDay i));
          annualizedCapex = (if js_gt (capexAmortYears i) (Fin 0)
                             then js_div (capex i) (capexAmortYears i) else capex i);
          annualCost' = js_add annualizedCapex (opexYear i);
          net' = js_sub savedSEK' annualCost';
          roi' = (if js_gt annualCost' (Fin 0) then js_div net' annualCost' else NaN);
          paybackYears' = (if js_gt savedSEK' (opexYear i)
                           then js_div (capex i) (Math_max (Fin 1) (js_sub savedSEK' (opexYear i)))
                           else NaN);
          vriPer1000' = (if js_gt bedDays' (Fin 0)
                         then js_mul (js_div vri' bedDays') (Fin 1000) else NaN)
      in \<lparr> bedDays = bedDays', vri = vri', vriPer1000 = vriPer1000', gramNeg = gramNeg',
           sinkGramNeg = sinkGramNeg', avoided = avoided', savedBedDays = savedBedDays',
           savedSEK = savedSEK', annualCost = annualCost', net = net', roi = roi',
           paybackYears = paybackYears',
           usedOverride = (Number_isFinite (vriPerYearOverride i)
                           \<and> js_gt (vriPerYearOverride i) (Fin 0)),
           vriFromRate = vriFromRate' \<rparr>)"

section \<open>The normalizer \<open>parsed\<close> and the defaults\<close>

definition parsed :: "StateType \<Rightarrow> CalcInput" where
  "parsed state =
     (let vriOverride = toNum (vriPerYearOverride state)
      in \<lparr> beds = clamp (toNum (beds state)) (Fin 0) (Fin 2000),
           occupancyPct = clamp (toNum (occupancyPct state)) (Fin 0) (Fin 100),
           alosDays = clamp (toNum (alosDays state)) (Fin 0) (Fin 365),
           vriPer1000BedDays = clamp (toNum (vriPer1000BedDays state)) (Fin 0) (Fin 200),
           vriPerYearOverride = (if Number_isFinite vriOverride then vriOverride else NaN),
           gramNegPct = clamp (toNum (gramNegPct state)) (Fin 0) (Fin 100),
           sinkAttributablePct = clamp (toNum (sinkAttributablePct state)) (Fin 0) (Fin 100),
           effectPct = clamp (toNum (effectPct state)) (Fin 0) (Fin 100),
           extraDaysPerVRI = clamp (toNum (extraDaysPerVRI state)) (Fin 0) (Fin 365),
           costPerBedDay = clamp (toNum (costPerBedDay state)) (Fin 0) (Fin 1000000),
           costPerVRI = clamp (toNum (costPerVRI state)) (Fin 0) (Fin 10000000),
           pricingMode = pricingMode state,
           capex = clamp (toNum (capex state)) (Fin 0) (Fin 100000000),
           opexYear = clamp (toNum (opexYear state)) (Fin 0) (Fin 100000000),
           capexAmortYears = clamp (toNum (capexAmortYears state)) (Fin 1) (Fin 20) \<rparr>)"

definition defaults :: StateType where
  "defaults =
     \<lparr> beds = Num (Fin 24),
       occupancyPct = Num (Fin 92),
       alosDays = Num (Fin 4),
       vriPer1000BedDays = Num (Fin 6),
       vriPerYearOverride = Str [],
       gramNegPct = Num (Fin 35),
       sinkAttributablePct = Num (Fin 10),
       effectPct = Num (Fin 10),
       extraDaysPerVRI = Num (Fin 5),
       costPerBedDay = Num (Fin 12000),
       costPerVRI = Num (Fin 90000),
       pricingMode = str ''bedDays'',
       capex = Num (Fin 350000),
       opexYear = Num (Fin 25000),
       capexAmortYears = Num (Fin 5) \<rparr>"


section \<open>The advisory notes \<open>safetyNotes\<close>\<close>

text \<open>The five messages, as the code units of the string literals of the source.\<close>

definition note_zero_rate :: jsstring where
  "note_zero_rate = str ''Du har satt VRI/1000 v'' @ [229] @ str ''rddygn till 0 och ingen override ''
     @ [228] @ str ''r angiven '' @ [8594] @ str '' kalkylen ger 0 infektioner.''"

definition note_low_sink :: jsstring where
  "note_low_sink = str ''Handfatskoppling '' @ [228] @ str ''r satt mycket l'' @ [229] @ str ''gt (''
     @ [8804] @ str '' 5%). Det '' @ [228] @ str ''r defensivt, men kan underskatta potentialen.''"

definition note_low_effect :: jsstring where
  "note_low_effect = str ''Effekt '' @ [228] @ str ''r satt mycket l'' @ [229] @ str ''gt (''
     @ [8804] @ str '' 5%). Bra som worst-case-scenario.''"

definition note_zero_bed_day_cost :: jsstring where
  "note_zero_bed_day_cost = str ''Kostnad per v'' @ [229] @ str ''rddygn '' @ [228] @ str ''r 0 ''
     @ [8594] @ str '' besparing blir 0 i v'' @ [229] @ str ''rddygnsl'' @ [228] @ str ''get.''"

definition note_zero_vri_cost :: jsstring where
  "note_zero_vri_cost = str ''Kostnad per VRI '' @ [228] @ str ''r 0 '' @ [8594]
     @ str '' besparing blir 0 i kostnad/VRI-l'' @ [228] @ str ''get.''"

text \<open>The memo \<open>safetyNotes\<close> reads \<open>parsed\<close> and \<open>result.usedOverride\<close>; each \<open>if\<close>
  pushes its message onto the array built so far.\<close>

definition safetyNotes :: "CalcInput \<Rightarrow> Result \<Rightarrow> jsstring list" where
  "safetyNotes p result =
     (let notes0 = [];
          notes1 = (if \<not> usedOverride result \<and> js_eq (vriPer1000BedDays p) (Fin 0)
                    then notes0 @ [note_zero_rate] else notes0);
          notes2 = (if js_le (sinkAttributablePct p) (Fin 5)
                    then notes1 @ [note_low_sink] else notes1);
          notes3 = (if js_le (effectPct p) (Fin 5)
                    then notes2 @ [note_low_effect] else notes2);
          notes4 = (if pricingMode p = str ''bedDays'' \<and> js_eq (costPerBedDay p) (Fin 0)
                    then notes3 @ [note_zero_bed_day_cost] else notes3);
          notes5 = (if pricingMode p = str ''perVRI'' \<and> js_eq (costPerVRI p) (Fin 0)
                    then notes4 @ [note_zero_vri_cost] else notes4)
      in notes5)"

section \<open>The specification's tables\<close>

text \<open>The bounded numeric fields and the bounds table of section 4.1 of the specification.\<close>

datatype field = Beds | OccupancyPct | AlosDays | VriPer1000BedDays | GramNegPct
  | SinkAttributablePct | EffectPct | ExtraDaysPerVRI | CostPerBedDay | CostPerVRI
  | Capex | OpexYear | CapexAmortYears

fun lower :: "field \<Rightarrow> rat" where
  "lower CapexAmortYears = 1"
| "lower _ = 0"

fun upper :: "field \<Rightarrow> rat" where
  "upper Beds = 2000"
| "upper OccupancyPct = 100"
| "upper AlosDays = 365"
| "upper VriPer1000BedDays = 200"
| "upper GramNegPct = 100"
| "upper SinkAttributablePct = 100"
| "upper EffectPct = 100"
| "upper ExtraDaysPerVRI = 365"
| "upper CostPerBedDay = 1000000"
| "upper CostPerVRI = 10000000"
| "upper Capex = 100000000"
| "upper OpexYear = 100000000"
| "upper CapexAmortYears = 20"

fun get :: "field \<Rightarrow> 'a CalcFields \<Rightarrow> 'a" where
  "get Beds = beds"
| "get OccupancyPct = occupancyPct"
| "get AlosDays = alosDays"
| "get VriPer1000BedDays = vriPer1000BedDays"
| "get GramNegPct = gramNegPct"
| "get SinkAttributablePct = sinkAttributablePct"
| "get EffectPct = effectPct"
| "get ExtraDaysPerVRI = extraDaysPerVRI"
| "get CostPerBedDay = costPerBedDay"
| "get CostPerVRI = costPerVRI"
| "get Capex = capex"
| "get OpexYear = opexYear"
| "get CapexAmortYears = capexAmortYears"

definition bounded_fields :: "field list" where
  "bounded_fields = [Beds, OccupancyPct, AlosDays, VriPer1000BedDays, GramNegPct,
     SinkAttributablePct, EffectPct, ExtraDaysPerVRI, CostPerBedDay, CostPerVRI,
     Capex, OpexYear, CapexAmortYears]"

text \<open>A finite number between two bounds, and a number of the model's range: a finite number
  is a binary64 value only if its magnitude is below the overflow threshold. Every operation
  above returns a number of the range.\<close>

fun between :: "rat \<Rightarrow> rat \<Rightarrow> jsnum \<Rightarrow> bool" where
  "between lo hi (Fin r) = (lo \<le> r \<and> r \<le> hi)"
| "between lo hi _ = False"

fun in_range :: "jsnum \<Rightarrow> bool" where
  "in_range (Fin r) = (- overflow_threshold < r \<and> r < overflow_threshold)"
| "in_range _ = True"

text \<open>A normalized input: every bounded field is a finite number within its bounds, and
  \<open>vriPerYearOverride\<close> is NaN or a finite number of the range (the normalizer does not clamp
  it). The field \<open>pricingMode\<close> is any string: the normalizer copies it.\<close>

definition normalized :: "CalcInput \<Rightarrow> bool" where
  "normalized i =
     (list_all (\<lambda>f. between (lower f) (upper f) (get f i)) bounded_fields
      \<and> (Number_isFinite (vriPerYearOverride i) \<or> Number_isNaN (vriPerYearOverride i))
      \<and> in_range (vriPerYearOverride i))"

text \<open>The five advisory rules of section 4.3 of the specification, in its declaration order:
  the condition of each rule and its message.\<close>

definition advisory_rules :: "CalcInput \<Rightarrow> Result \<Rightarrow> (bool \<times> jsstring) list" where
  "advisory_rules p result =
     [(js_eq (vriPer1000BedDays p) (Fin 0) \<and> \<not> usedOverride result, note_zero_rate),
      (js_le (sinkAttributablePct p) (Fin 5), note_low_sink),
      (js_le (effectPct p) (Fin 5), note_low_effect),
      (pricingMode p = str ''bedDays'' \<and> js_eq (costPerBedDay p) (Fin 0), note_zero_bed_day_cost),
      (pricingMode p = str ''perVRI'' \<and> js_eq (costPerVRI p) (Fin 0), note_zero_vri_cost)]"


section \<open>Inputs and predicates used in the statements\<close>

text \<open>The default state with \<open>abc\<close> typed into the fields \<open>beds\<close> and \<open>vriPerYearOverride\<close>.\<close>

definition unparseable_state :: StateType where
  "unparseable_state = defaults\<lparr>beds := Str (str ''abc''), vriPerYearOverride := Str (str ''abc'')\<rparr>"

text \<open>The two parts of the invariant that section 3 of the specification states for a
  normalized input: every numeric field is finite, and the mode is one of the two.\<close>

definition all_numeric_finite :: "CalcInput \<Rightarrow> bool" where
  "all_numeric_finite i =
     (list_all (\<lambda>f. Number_isFinite (get f i)) bounded_fields
      \<and> Number_isFinite (vriPerYearOverride i))"

definition mode_in_enum :: "jsstring \<Rightarrow> bool" where
  "mode_in_enum m = (m = str ''bedDays'' \<or> m = str ''perVRI'')"

text \<open>The default state with \<open>1e308\<close> typed into the override field, \<open>100\<close> into the three
  percentages, \<open>365\<close> into the extra days per infection and \<open>0\<close> into the bed-day cost;
  \<open>big\<close> is the value of \<open>1e308\<close>.\<close>

definition overflow_state :: StateType where
  "overflow_state =
     defaults\<lparr> vriPerYearOverride := Str (str ''1e308''), gramNegPct := Str (str ''100''),
       sinkAttributablePct := Str (str ''100''), effectPct := Str (str ''100''),
       extraDaysPerVRI := Str (str ''365''), costPerBedDay := Str (str ''0'') \<rparr>"

definition big :: rat where
  "big = 10 ^ 308"

text \<open>A normalized input in mode \<open>perVRI\<close> whose savings exceed the yearly cost by 1.\<close>

definition recoverable_input :: CalcInput where
  "recoverable_input =
     (parsed defaults)\<lparr> vriPerYearOverride := Fin 100, gramNegPct := Fin 100,
       sinkAttributablePct := Fin 100, effectPct := Fin 100, pricingMode := str ''perVRI'',
       costPerVRI := Fin 1, opexYear := Fin 99 \<rparr>"

text \<open>A number that is not negative (Infinity included), and a finite one of the range.\<close>

fun nonneg :: "jsnum \<Rightarrow> bool" where
  "nonneg (Fin r) = (0 \<le> r)"
| "nonneg PInf = True"
| "nonneg _ = False"

fun fin_nonneg :: "jsnum \<Rightarrow> bool" where
  "fin_nonneg (Fin r) = (0 \<le> r \<and> r < overflow_threshold)"
| "fin_nonneg _ = False"

section \<open>The number model\<close>

lemma threshold_large: "10 ^ 300 < overflow_threshold"
  by (simp add: overflow_threshold_def)

lemma threshold_pos: "0 < overflow_threshold"
  using threshold_large by (rule less_trans [rotated]) simp

lemma mk_Fin: "- overflow_threshold < r \<Longrightarrow> r < overflow_threshold \<Longrightarrow> mk r = Fin r"
  by (simp add: mk_def)

lemma mk_small: "\<bar>r\<bar> \<le> 10 ^ 300 \<Longrightarrow> mk r = Fin r"
  using threshold_large by (intro mk_Fin) linarith+

lemma mk_tiny: "\<bar>r\<bar> \<le> 10 ^ 12 \<Longrightarrow> mk r = Fin r"
  by (rule mk_small) (rule order_trans, assumption, simp)

lemma in_range_mk: "in_range (mk r)"
  by (simp add: mk_def)

lemma mk_mono: "x \<le> y \<Longrightarrow> js_le (mk x) (mk y)"
  using threshold_pos by (auto simp: mk_def js_le_def)

lemma nonneg_mk: "0 \<le> r \<Longrightarrow> nonneg (mk r)"
  using threshold_pos by (simp add: mk_def)

lemma betweenE: "between lo hi x \<Longrightarrow> (\<And>r. x = Fin r \<Longrightarrow> lo \<le> r \<Longrightarrow> r \<le> hi \<Longrightarrow> P) \<Longrightarrow> P"
  by (cases x) auto

lemma between_finite: "between lo hi x \<Longrightarrow> Number_isFinite x"
  by (cases x) auto

lemma fin_nonnegE:
  "fin_nonneg x \<Longrightarrow> (\<And>v. x = Fin v \<Longrightarrow> 0 \<le> v \<Longrightarrow> v < overflow_threshold \<Longrightarrow> P) \<Longrightarrow> P"
  by (cases x) auto

lemma between_mul:
  assumes "between 0 a x" "between 0 b y" "a * b \<le> 10 ^ 300"
  shows "between 0 (a * b) (js_mul x y)"
proof -
  from assms(1) obtain r where x: "x = Fin r" "0 \<le> r" "r \<le> a" by (rule betweenE)
  from assms(2) obtain s where y: "y = Fin s" "0 \<le> s" "s \<le> b" by (rule betweenE)
  have le: "r * s \<le> a * b" using x y by (intro mult_mono) auto
  have "0 \<le> r * s" using x y by simp
  with le assms(3) have "mk (r * s) = Fin (r * s)" by (intro mk_small) simp
  with x y le show ?thesis by simp
qed

lemma between_div:
  assumes "between 0 a x" "0 < d" "a / d \<le> 10 ^ 300"
  shows "between 0 (a / d) (js_div x (Fin d))"
proof -
  from assms(1) obtain r where x: "x = Fin r" "0 \<le> r" "r \<le> a" by (rule betweenE)
  have le: "r / d \<le> a / d" using x assms(2) by (simp add: divide_right_mono)
  have "0 \<le> r / d" using x assms(2) by simp
  with le assms(3) have "mk (r / d) = Fin (r / d)" by (intro mk_small) simp
  with x le assms(2) show ?thesis by simp
qed

lemma scale_pct:
  assumes "0 \<le> v" "v < overflow_threshold" "0 \<le> e" "e \<le> 100"
  shows "js_mul (Fin v) (js_div (Fin e) (Fin 100)) = Fin (v * (e / 100))"
    and "0 \<le> v * (e / 100)" and "v * (e / 100) \<le> v"
proof -
  have q: "0 \<le> e / 100" "e / 100 \<le> 1" using assms(3,4) by simp_all
  then have d: "js_div (Fin e) (Fin 100) = Fin (e / 100)"
    by (simp add: mk_small)
  show 0: "0 \<le> v * (e / 100)" using assms(1) q by simp
  show 1: "v * (e / 100) \<le> v" using mult_left_mono [OF q(2) assms(1)] by simp
  from 0 1 assms(2) threshold_pos have "mk (v * (e / 100)) = Fin (v * (e / 100))"
    by (intro mk_Fin) linarith+
  with d show "js_mul (Fin v) (js_div (Fin e) (Fin 100)) = Fin (v * (e / 100))"
    by simp
qed

lemma fin_nonneg_scale:
  assumes "fin_nonneg x" "between 0 100 p"
  shows "fin_nonneg (js_mul x (js_div p (Fin 100)))"
proof -
  from assms(1) obtain v where v: "x = Fin v" "0 \<le> v" "v < overflow_threshold"
    by (rule fin_nonnegE)
  from assms(2) obtain e where e: "p = Fin e" "0 \<le> e" "e \<le> 100"
    by (rule betweenE)
  from scale_pct [OF v(2,3) e(2,3)] v e show ?thesis by simp
qed

lemma js_mul_mono:
  assumes "nonneg x" "nonneg y" "js_le x y" "0 \<le> c" "\<not> Number_isNaN (js_mul y (Fin c))"
  shows "js_le (js_mul x (Fin c)) (js_mul y (Fin c))"
proof (cases y)
  case (Fin b)
  with assms(1,3) obtain a where a: "x = Fin a" "a \<le> b"
    by (cases x) (auto simp: js_le_def)
  then have "a * c \<le> b * c" using assms(4) by (simp add: mult_right_mono)
  with a Fin show ?thesis by (simp add: mk_mono)
next
  case PInf
  with assms(4,5) have c: "0 < c" by (cases "c = 0") auto
  then have y: "js_mul y (Fin c) = PInf" using PInf by (simp add: signed_def)
  show ?thesis
  proof (cases x)
    case (Fin a)
    with assms(1) c have "nonneg (mk (a * c))" by (intro nonneg_mk) simp
    then have "js_le (mk (a * c)) PInf" by (cases "mk (a * c)") (auto simp: js_le_def)
    with Fin y show ?thesis by simp
  next
    case PInf
    with y c show ?thesis by (simp add: signed_def js_le_def)
  qed (use assms(1) in auto)
qed (use assms(2) in auto)

lemma between_clamp: "lo \<le> hi \<Longrightarrow> between lo hi (clamp n (Fin lo) (Fin hi))"
  by (cases n) (auto simp: clamp_def Math_max_def Math_min_def)

lemma clamp_NaN: "clamp NaN lo hi = lo"
  by (simp add: clamp_def)

lemma clamp_Fin: "clamp (Fin r) (Fin lo) (Fin hi) = Fin (min hi (max lo r))"
  by (auto simp: clamp_def Math_max_def Math_min_def)

section \<open>Parsing\<close>

lemma toNum_cases: "toNum v = NaN \<or> (\<exists>r. toNum v = Fin r)"
  by (cases "toNum v") (auto simp: toNum_def Let_def split: if_splits)

lemma toNum_empty: "toNum (Str []) = Fin 0"
  by (simp add: toNum_def strip_spaces_def Number_str_def trim_def)

lemma toNum_Num_Fin: "toNum (Num (Fin r)) = Fin r"
  by (simp add: toNum_def)

text \<open>The strings typed into the states above.\<close>

lemmas eval_Number = toNum_def strip_spaces_def is_space_def Number_str_def trim_def
  non_decimal_def str_decimal_def Infinity_lit_def str_def unsigned_decimal_def is_digit_def
  digit_in_def digits_val_def signed_integer_def

lemma toNum_abc: "toNum (Str (str ''abc'')) = NaN"
  by (simp add: eval_Number)

lemma toNum_0: "toNum (Str (str ''0'')) = Fin 0"
  by (simp add: eval_Number pow10_def mk_tiny)

lemma toNum_100: "toNum (Str (str ''100'')) = Fin 100"
  by (simp add: eval_Number pow10_def mk_tiny)

lemma toNum_365: "toNum (Str (str ''365'')) = Fin 365"
  by (simp add: eval_Number pow10_def mk_tiny)

lemma big_bounds: "0 < big" "big < overflow_threshold" "overflow_threshold \<le> big * 365"
  by (simp_all add: big_def overflow_threshold_def)

lemma mk_big: "mk big = Fin big" "mk (big * 365) = PInf"
  using big_bounds by (simp_all add: mk_def)

lemma pow10_308: "pow10 308 = big"
  by (simp add: pow10_def big_def)

lemma toNum_1e308: "toNum (Str (str ''1e308'')) = Fin big"
  by (simp add: eval_Number pow10_308 mk_big)

lemma str_modes: "str ''perVRI'' \<noteq> str ''bedDays''"
  by (simp add: str_def)

section \<open>The normalizer\<close>

lemma all_fields: "f \<in> set bounded_fields"
  by (cases f) (simp_all add: bounded_fields_def)

lemma get_parsed:
  "get f (parsed st) = clamp (toNum (get f st)) (Fin (lower f)) (Fin (upper f))"
  by (cases f) (simp_all add: parsed_def Let_def)

lemma lower_le_upper: "lower f \<le> upper f"
  by (cases f) simp_all

lemma normalized_get: "normalized i \<Longrightarrow> between (lower f) (upper f) (get f i)"
  using all_fields [of f] by (auto simp: normalized_def list_all_iff)

lemma normalized_parsed:
  assumes "case vriPerYearOverride st of Str s \<Rightarrow> True | Num x \<Rightarrow> in_range x"
  shows "normalized (parsed st)"
proof -
  have b: "between (lower f) (upper f) (get f (parsed st))" for f
    by (simp add: get_parsed between_clamp lower_le_upper)
  have o: "vriPerYearOverride (parsed st) = toNum (vriPerYearOverride st)"
    using toNum_cases [of "vriPerYearOverride st"] by (auto simp: parsed_def Let_def)
  have "0 < overflow_threshold" by (simp add: overflow_threshold_def)
  then have "in_range (Number_str s)" for s
    by (simp add: Number_str_def Let_def str_decimal_def in_range_mk split: option.splits)
  then have "in_range (toNum (vriPerYearOverride st))"
    using assms by (cases "vriPerYearOverride st") (auto simp: toNum_def Let_def)
  with b o toNum_cases [of "vriPerYearOverride st"] show ?thesis
    by (auto simp: normalized_def list_all_iff)
qed

lemma normalized_capex: "normalized i \<Longrightarrow> \<exists>c. capex i = Fin c \<and> 0 \<le> c \<and> c \<le> 100000000"
  using normalized_get [of i Capex] by (cases "capex i") auto

lemma normalized_opexYear: "normalized i \<Longrightarrow> \<exists>c. opexYear i = Fin c \<and> 0 \<le> c \<and> c \<le> 100000000"
  using normalized_get [of i OpexYear] by (cases "opexYear i") auto

lemma normalized_effectPct:
  "normalized i \<Longrightarrow> 0 \<le> e \<Longrightarrow> e \<le> 100 \<Longrightarrow> normalized (i\<lparr>effectPct := Fin e\<rparr>)"
  by (simp add: normalized_def bounded_fields_def)

lemma parsed_defaults:
  "parsed defaults =
     \<lparr> beds = Fin 24, occupancyPct = Fin 92, alosDays = Fin 4, vriPer1000BedDays = Fin 6,
       vriPerYearOverride = Fin 0, gramNegPct = Fin 35, sinkAttributablePct = Fin 10,
       effectPct = Fin 10, extraDaysPerVRI = Fin 5, costPerBedDay = Fin 12000,
       costPerVRI = Fin 90000, pricingMode = str ''bedDays'', capex = Fin 350000,
       opexYear = Fin 25000, capexAmortYears = Fin 5 \<rparr>"
  by (simp add: parsed_def defaults_def toNum_empty toNum_Num_Fin clamp_Fin)

lemma parsed_defaults_fields:
  "beds (parsed defaults) = Fin 24"
  "occupancyPct (parsed defaults) = Fin 92"
  "alosDays (parsed defaults) = Fin 4"
  "vriPer1000BedDays (parsed defaults) = Fin 6"
  "vriPerYearOverride (parsed defaults) = Fin 0"
  "gramNegPct (parsed defaults) = Fin 35"
  "sinkAttributablePct (parsed defaults) = Fin 10"
  "effectPct (parsed defaults) = Fin 10"
  "extraDaysPerVRI (parsed defaults) = Fin 5"
  "costPerBedDay (parsed defaults) = Fin 12000"
  "costPerVRI (parsed defaults) = Fin 90000"
  "pricingMode (parsed defaults) = str ''bedDays''"
  "capex (parsed defaults) = Fin 350000"
  "opexYear (parsed defaults) = Fin 25000"
  "capexAmortYears (parsed defaults) = Fin 5"
  by (simp_all add: parsed_defaults)

lemma normalized_parsed_defaults: "normalized (parsed defaults)"
  by (simp add: parsed_defaults normalized_def bounded_fields_def overflow_threshold_def)

lemma parsed_overflow_state:
  "parsed overflow_state =
     \<lparr> beds = Fin 24, occupancyPct = Fin 92, alosDays = Fin 4, vriPer1000BedDays = Fin 6,
       vriPerYearOverride = Fin big, gramNegPct = Fin 100, sinkAttributablePct = Fin 100,
       effectPct = Fin 100, extraDaysPerVRI = Fin 365, costPerBedDay = Fin 0,
       costPerVRI = Fin 90000, pricingMode = str ''bedDays'', capex = Fin 350000,
       opexYear = Fin 25000, capexAmortYears = Fin 5 \<rparr>"
  by (simp add: overflow_state_def parsed_def Let_def defaults_def toNum_1e308 toNum_Num_Fin
      toNum_100 toNum_365 toNum_0 clamp_Fin)

lemma parsed_overflow_fields:
  "vriPerYearOverride (parsed overflow_state) = Fin big"
  "gramNegPct (parsed overflow_state) = Fin 100"
  "sinkAttributablePct (parsed overflow_state) = Fin 100"
  "effectPct (parsed overflow_state) = Fin 100"
  "extraDaysPerVRI (parsed overflow_state) = Fin 365"
  "costPerBedDay (parsed overflow_state) = Fin 0"
  "pricingMode (parsed overflow_state) = str ''bedDays''"
  "capex (parsed overflow_state) = Fin 350000"
  "opexYear (parsed overflow_state) = Fin 25000"
  by (simp_all add: parsed_overflow_state)

lemma normalized_overflow: "normalized (parsed overflow_state)"
  by (rule normalized_parsed) (simp add: overflow_state_def)

lemma normalized_recoverable: "normalized recoverable_input"
  by (simp add: recoverable_input_def parsed_defaults normalized_def bounded_fields_def
      overflow_threshold_def)

lemma recoverable_fields:
  "vriPerYearOverride recoverable_input = Fin 100"
  "gramNegPct recoverable_input = Fin 100"
  "sinkAttributablePct recoverable_input = Fin 100"
  "effectPct recoverable_input = Fin 100"
  "pricingMode recoverable_input = str ''perVRI''"
  "costPerVRI recoverable_input = Fin 1"
  "capex recoverable_input = Fin 350000"
  "opexYear recoverable_input = Fin 99"
  by (simp_all add: recoverable_input_def parsed_defaults)

section \<open>The calculation, field by field\<close>

lemma calc_bedDays:
  "bedDays (calc i) =
     js_mul (js_mul (beds i) (Fin 365)) (clamp (js_div (occupancyPct i) (Fin 100)) (Fin 0) (Fin 1))"
  by (simp add: calc_def Let_def)

lemma calc_vriFromRate:
  "vriFromRate (calc i) = js_mul (js_div (vriPer1000BedDays i) (Fin 1000)) (bedDays (calc i))"
  by (simp add: calc_def Let_def)

lemma calc_usedOverride:
  "usedOverride (calc i) =
     (Number_isFinite (vriPerYearOverride i) \<and> js_gt (vriPerYearOverride i) (Fin 0))"
  by (simp add: calc_def Let_def)

lemma calc_vri:
  "vri (calc i) = (if usedOverride (calc i) then vriPerYearOverride i else vriFromRate (calc i))"
  by (simp add: calc_def Let_def)

lemma calc_gramNeg: "gramNeg (calc i) = js_mul (vri (calc i)) (js_div (gramNegPct i) (Fin 100))"
  by (simp add: calc_def Let_def)

lemma calc_sinkGramNeg:
  "sinkGramNeg (calc i) = js_mul (gramNeg (calc i)) (js_div (sinkAttributablePct i) (Fin 100))"
  by (simp add: calc_def Let_def)

lemma calc_avoided:
  "avoided (calc i) = js_mul (sinkGramNeg (calc i)) (js_div (effectPct i) (Fin 100))"
  by (simp add: calc_def Let_def)

lemma calc_savedBedDays:
  "savedBedDays (calc i) = js_mul (avoided (calc i)) (extraDaysPerVRI i)"
  by (simp add: calc_def Let_def)

lemma calc_savedSEK:
  "savedSEK (calc i) =
     (if pricingMode i = str ''perVRI'' then js_mul (avoided (calc i)) (costPerVRI i)
      else js_mul (savedBedDays (calc i)) (costPerBedDay i))"
  by (simp add: calc_def Let_def)



lemma calc_paybackYears:
  "paybackYears (calc i) =
     (if js_gt (savedSEK (calc i)) (opexYear i)
      then js_div (capex i) (Math_max (Fin 1) (js_sub (savedSEK (calc i)) (opexYear i)))
      else NaN)"
  by (simp add: calc_def Let_def)

lemma sinkGramNeg_effectPct: "sinkGramNeg (calc (i\<lparr>effectPct := e\<rparr>)) = sinkGramNeg (calc i)"
  by (simp add: calc_sinkGramNeg calc_gramNeg calc_vri calc_usedOverride calc_vriFromRate
      calc_bedDays)

lemma normalized_occupancy:
  assumes "normalized i"
  shows "between 0 1 (clamp (js_div (occupancyPct i) (Fin 100)) (Fin 0) (Fin 1))"
  by (rule between_clamp) simp

lemma normalized_bedDays:
  assumes "normalized i"
  shows "between 0 730000 (bedDays (calc i))"
proof -
  have b: "between 0 2000 (beds i)" using normalized_get [OF assms, of Beds] by simp
  have "between 0 (2000 * 365) (js_mul (beds i) (Fin 365))"
    by (rule between_mul [OF b]) simp_all
  from between_mul [OF this normalized_occupancy [OF assms]]
  show ?thesis by (simp add: calc_bedDays)
qed

lemma normalized_vriFromRate:
  assumes "normalized i"
  shows "between 0 146000 (vriFromRate (calc i))"
proof -
  have r: "between 0 200 (vriPer1000BedDays i)"
    using normalized_get [OF assms, of VriPer1000BedDays] by simp
  have "between 0 (200 / 1000) (js_div (vriPer1000BedDays i) (Fin 1000))"
    by (rule between_div [OF r]) simp_all
  from between_mul [OF this normalized_bedDays [OF assms]]
  show ?thesis by (simp add: calc_vriFromRate)
qed

lemma normalized_vri:
  assumes "normalized i"
  shows "fin_nonneg (vri (calc i))"
proof (cases "usedOverride (calc i)")
  case True
  then obtain r where r: "vriPerYearOverride i = Fin r" "0 < r"
    by (cases "vriPerYearOverride i") (auto simp: calc_usedOverride js_gt_def)
  from assms have "in_range (vriPerYearOverride i)" by (simp add: normalized_def)
  with r True show ?thesis by (simp add: calc_vri)
next
  case False
  from normalized_vriFromRate [OF assms] obtain v
    where "vriFromRate (calc i) = Fin v" "0 \<le> v" "v \<le> 146000"
    by (rule betweenE)
  moreover have "(146000::rat) < overflow_threshold"
    using threshold_large by (rule less_trans [rotated]) simp
  ultimately show ?thesis using False by (simp add: calc_vri)
qed

lemma normalized_sinkGramNeg:
  assumes "normalized i"
  shows "fin_nonneg (sinkGramNeg (calc i))"
proof -
  have g: "between 0 100 (gramNegPct i)" using normalized_get [OF assms, of GramNegPct] by simp
  have s: "between 0 100 (sinkAttributablePct i)"
    using normalized_get [OF assms, of SinkAttributablePct] by simp
  from fin_nonneg_scale [OF fin_nonneg_scale [OF normalized_vri [OF assms] g] s]
  show ?thesis by (simp add: calc_sinkGramNeg calc_gramNeg)
qed

lemma payback_quotient:
  assumes c: "0 \<le> c" "c \<le> 100000000" and gt: "js_gt S (Fin o')"
  shows "\<exists>p. js_div (Fin c) (Math_max (Fin 1) (js_sub S (Fin o'))) = Fin p \<and> 0 \<le> p \<and> p \<le> c"
proof -
  have inf: "js_div (Fin c) (Math_max (Fin 1) PInf) = Fin 0"
    by (simp add: Math_max_def)
  show ?thesis
  proof (cases S)
    case NaN
    with gt show ?thesis by (simp add: js_gt_def)
  next
    case PInf
    with inf c show ?thesis by (simp add: js_sub_def)
  next
    case NInf
    with gt show ?thesis by (simp add: js_gt_def)
  next
    case (Fin s)
    with gt have pos: "0 < s - o'" by (simp add: js_gt_def)
    show ?thesis
    proof (cases "overflow_threshold \<le> s - o'")
      case True
      then have "js_sub S (Fin o') = PInf" using Fin by (simp add: js_sub_def mk_def)
      with inf c show ?thesis by simp
    next
      case False
      with pos threshold_pos have d: "js_sub S (Fin o') = Fin (s - o')"
        using Fin by (simp add: js_sub_def mk_def)
      define m where "m = max 1 (s - o')"
      have m: "1 \<le> m" by (simp add: m_def)
      have mx: "Math_max (Fin 1) (Fin (s - o')) = Fin m"
        by (auto simp: Math_max_def m_def)
      have q: "0 \<le> c / m" "c / m \<le> c"
        using c m by (simp_all add: divide_le_eq mult_le_cancel_left1)
      then have "mk (c / m) = Fin (c / m)"
        using c by (intro mk_small) simp
      with m q d mx show ?thesis by simp
    qed
  qed
qed

lemma normalized_payback:
  assumes "normalized i" "js_gt (savedSEK (calc i)) (opexYear i)"
  shows "\<exists>p c. paybackYears (calc i) = Fin p \<and> capex i = Fin c \<and> 0 \<le> p \<and> p \<le> c"
proof -
  from normalized_capex [OF assms(1)] obtain c where c: "capex i = Fin c" "0 \<le> c" "c \<le> 100000000"
    by blast
  from normalized_opexYear [OF assms(1)] obtain o' where o: "opexYear i = Fin o'"
    by blast
  from payback_quotient [OF c(2,3), of "savedSEK (calc i)" o'] assms(2) o c(1)
  show ?thesis by (auto simp: calc_paybackYears)
qed

section \<open>The calculation on the inputs above\<close>

lemmas eval_defaults = parsed_defaults_fields clamp_Fin mk_tiny js_gt_def js_sub_def
  str_modes [symmetric]

lemma defaults_bedDays: "bedDays (calc (parsed defaults)) = Fin 8059.2"
  by (simp add: calc_bedDays eval_defaults)

lemma defaults_usedOverride: "\<not> usedOverride (calc (parsed defaults))"
  by (simp add: calc_usedOverride eval_defaults)

lemma defaults_vri: "vri (calc (parsed defaults)) = Fin 48.3552"
  by (simp add: calc_vri calc_vriFromRate defaults_usedOverride defaults_bedDays eval_defaults)

lemma defaults_gramNeg: "gramNeg (calc (parsed defaults)) = Fin 16.92432"
  by (simp add: calc_gramNeg defaults_vri eval_defaults)

lemma defaults_sinkGramNeg: "sinkGramNeg (calc (parsed defaults)) = Fin 1.692432"
  by (simp add: calc_sinkGramNeg defaults_gramNeg eval_defaults)







lemma overflow_avoided: "avoided (calc (parsed overflow_state)) = Fin big"
  by (simp add: calc_avoided calc_sinkGramNeg calc_gramNeg calc_vri calc_usedOverride
      parsed_overflow_fields js_gt_def mk_tiny mk_big big_bounds)

lemma overflow_savedBedDays: "savedBedDays (calc (parsed overflow_state)) = PInf"
  by (simp add: calc_savedBedDays overflow_avoided parsed_overflow_fields mk_big)

lemma overflow_savedSEK: "savedSEK (calc (parsed overflow_state)) = NaN"
  by (simp add: calc_savedSEK overflow_savedBedDays parsed_overflow_fields str_modes [symmetric])

lemma overflow_paybackYears: "paybackYears (calc (parsed overflow_state)) = NaN"
  by (simp add: calc_paybackYears overflow_savedSEK parsed_overflow_fields js_gt_def)

lemma overflow_zero_effect:
  "savedSEK (calc ((parsed overflow_state)\<lparr>effectPct := Fin 0\<rparr>)) = Fin 0"
  by (simp add: calc_savedSEK calc_savedBedDays calc_avoided calc_sinkGramNeg calc_gramNeg
      calc_vri calc_usedOverride parsed_overflow_fields js_gt_def mk_tiny mk_big big_bounds
      str_modes [symmetric])

lemma recoverable_savedSEK: "savedSEK (calc recoverable_input) = Fin 100"
  by (simp add: calc_savedSEK calc_avoided calc_sinkGramNeg calc_gramNeg calc_vri
      calc_usedOverride recoverable_fields js_gt_def mk_tiny)

lemma recoverable_margin:
  "js_sub (savedSEK (calc recoverable_input)) (opexYear recoverable_input) = Fin 1"
  by (simp add: recoverable_savedSEK recoverable_fields js_sub_def mk_tiny)

section \<open>The advisory rules\<close>

lemma notes_distinct:
  "distinct [note_zero_rate, note_low_sink, note_low_effect, note_zero_bed_day_cost,
     note_zero_vri_cost]"
  by (simp add: note_zero_rate_def note_low_sink_def note_low_effect_def
      note_zero_bed_day_cost_def note_zero_vri_cost_def str_def)

lemma safetyNotes_rules: "safetyNotes p r = map snd (filter fst (advisory_rules p r))"
  by (simp add: safetyNotes_def advisory_rules_def Let_def)

lemma rule_fires:
  "\<forall>(c, m) \<in> set (advisory_rules p r). (m \<in> set (map snd (filter fst (advisory_rules p r)))) = c"
proof -
  have d: "distinct (map snd (advisory_rules p r))"
    using notes_distinct by (simp add: advisory_rules_def)
  have "(m \<in> set (map snd (filter fst xs))) = c"
    if "distinct (map snd xs)" "(c, m) \<in> set xs" for xs :: "(bool \<times> jsstring) list" and c m
    using that by (induction xs) (auto simp: image_iff)
  with d show ?thesis by blast
qed

section \<open>The claims\<close>

text \<open>
  Claim C1 (override precedence and rate fallback). For a normalized input whose
  \<open>vriPerYearOverride\<close> is finite and strictly positive, the result's \<open>vri\<close> is the override
  and \<open>usedOverride\<close> is true, whatever \<open>vriPer1000BedDays\<close> is. When the override is NaN, zero
  or negative, \<open>vri\<close> is \<open>vriFromRate\<close> (the same value, and a number, so that \<open>===\<close> holds too)
  and \<open>usedOverride\<close> is false.
\<close>

theorem override_precedence:
  assumes "normalized i"
  shows "(\<forall>r. vriPerYearOverride i = Fin r \<and> 0 < r \<longrightarrow>
            vri (calc i) = Fin r \<and> usedOverride (calc i)
            \<and> (\<forall>x. vri (calc (i\<lparr>vriPer1000BedDays := x\<rparr>)) = Fin r))
       \<and> (vriPerYearOverride i = NaN \<or> (\<exists>r. vriPerYearOverride i = Fin r \<and> r \<le> 0) \<longrightarrow>
            vri (calc i) = vriFromRate (calc i) \<and> js_eq (vri (calc i)) (vriFromRate (calc i))
            \<and> \<not> usedOverride (calc i))"
proof (intro conjI allI impI)
  fix r assume "vriPerYearOverride i = Fin r \<and> 0 < r"
  then show "vri (calc i) = Fin r" "usedOverride (calc i)"
    by (simp_all add: calc_vri calc_usedOverride js_gt_def)
next
  fix r x assume "vriPerYearOverride i = Fin r \<and> 0 < r"
  then show "vri (calc (i\<lparr>vriPer1000BedDays := x\<rparr>)) = Fin r"
    by (simp add: calc_vri calc_usedOverride js_gt_def)
next
  assume h: "vriPerYearOverride i = NaN \<or> (\<exists>r. vriPerYearOverride i = Fin r \<and> r \<le> 0)"
  then show u: "\<not> usedOverride (calc i)"
    by (auto simp: calc_usedOverride js_gt_def)
  then show e: "vri (calc i) = vriFromRate (calc i)"
    by (simp add: calc_vri)
  from normalized_vriFromRate [OF assms] obtain v where "vriFromRate (calc i) = Fin v"
    by (rule betweenE)
  with e show "js_eq (vri (calc i)) (vriFromRate (calc i))" by simp
qed

theorem override_precedence_witness:
  "normalized ((parsed defaults)\<lparr>vriPerYearOverride := Fin 40\<rparr>)
   \<and> vri (calc ((parsed defaults)\<lparr>vriPerYearOverride := Fin 40\<rparr>)) = Fin 40
   \<and> usedOverride (calc ((parsed defaults)\<lparr>vriPerYearOverride := Fin 40\<rparr>))
   \<and> normalized (parsed defaults)
   \<and> vriPerYearOverride (parsed defaults) = Fin 0
   \<and> js_eq (vri (calc (parsed defaults))) (vriFromRate (calc (parsed defaults)))
   \<and> \<not> usedOverride (calc (parsed defaults))"
proof -
  have n1: "normalized ((parsed defaults)\<lparr>vriPerYearOverride := Fin 40\<rparr>)"
    by (simp add: parsed_defaults normalized_def bounded_fields_def overflow_threshold_def)
  have o0: "vriPerYearOverride (parsed defaults) = Fin 0"
    by (simp add: parsed_defaults)
  have p1: "vri (calc ((parsed defaults)\<lparr>vriPerYearOverride := Fin 40\<rparr>)) = Fin 40
      \<and> usedOverride (calc ((parsed defaults)\<lparr>vriPerYearOverride := Fin 40\<rparr>))"
    using override_precedence [OF n1, THEN conjunct1, rule_format, of 40] by simp
  have p0: "js_eq (vri (calc (parsed defaults))) (vriFromRate (calc (parsed defaults)))
      \<and> \<not> usedOverride (calc (parsed defaults))"
    using override_precedence [OF normalized_parsed_defaults, THEN conjunct2, rule_format] o0
    by blast
  from n1 p1 normalized_parsed_defaults o0 p0 show ?thesis by blast
qed

text \<open>
  Claim C2 (clamping). For every raw state and every bounded field, the normalizer's output
  for the field is a finite number within the bounds of the table of section 4.1; when the raw
  value parses to not-a-number (\<open>toNum\<close>: white space stripped, a decimal comma replaced,
  \<open>Number\<close>, and anything not finite turned into NaN), the output is the lower bound.
\<close>

theorem clamping:
  "between (lower f) (upper f) (get f (parsed st))
   \<and> (toNum (get f st) = NaN \<longrightarrow> get f (parsed st) = Fin (lower f))"
proof -
  have p: "get f (parsed st) = clamp (toNum (get f st)) (Fin (lower f)) (Fin (upper f))"
    by (rule get_parsed)
  have "between (lower f) (upper f) (clamp (toNum (get f st)) (Fin (lower f)) (Fin (upper f)))"
    by (rule between_clamp) (rule lower_le_upper)
  moreover have "get f (parsed st) = Fin (lower f)" if "toNum (get f st) = NaN"
    using that p by (simp add: clamp_NaN)
  ultimately show ?thesis using p by simp
qed

theorem clamping_witness:
  "toNum (get Beds unparseable_state) = NaN
   \<and> get Beds (parsed unparseable_state) = Fin 0
   \<and> between 0 2000 (get Beds (parsed unparseable_state))"
proof -
  have n: "toNum (get Beds unparseable_state) = NaN"
    by (simp add: unparseable_state_def toNum_abc)
  from clamping [of Beds unparseable_state] n show ?thesis by simp
qed

text \<open>
  Claim C3 says that \<open>paybackYears\<close> is NaN exactly when \<open>savedSEK <= opexYear\<close>. The override
  is not clamped: with \<open>1e308\<close> typed into it, all three percentages at 100, 365 extra days and
  a bed-day cost of 0, \<open>savedBedDays\<close> overflows to Infinity, \<open>savedSEK\<close> is \<open>Infinity * 0\<close>,
  that is NaN, and \<open>paybackYears\<close> is NaN although \<open>savedSEK <= opexYear\<close> is false.
\<close>

theorem payback_boundary_counterexample:
  "normalized (parsed overflow_state)
   \<and> savedSEK (calc (parsed overflow_state)) = NaN
   \<and> paybackYears (calc (parsed overflow_state)) = NaN
   \<and> \<not> (Number_isNaN (paybackYears (calc (parsed overflow_state)))
          \<longleftrightarrow> js_le (savedSEK (calc (parsed overflow_state))) (opexYear (parsed overflow_state)))"
  by (simp add: normalized_overflow overflow_savedSEK overflow_paybackYears js_le_def)

text \<open>
  Claim C3, amended (payback boundary). For a normalized input, \<open>paybackYears\<close> is NaN exactly
  when \<open>savedSEK <= opexYear\<close> or \<open>savedSEK\<close> is itself NaN (that is, when \<open>savedSEK > opexYear\<close>
  is false); and when \<open>savedSEK - opexYear\<close> is exactly 1, \<open>paybackYears\<close> is \<open>capex\<close>.
\<close>

theorem payback_boundary:
  assumes "normalized i"
  shows "(Number_isNaN (paybackYears (calc i)) \<longleftrightarrow>
            js_le (savedSEK (calc i)) (opexYear i) \<or> Number_isNaN (savedSEK (calc i)))
       \<and> (js_sub (savedSEK (calc i)) (opexYear i) = Fin 1 \<longrightarrow> paybackYears (calc i) = capex i)"
proof (intro conjI impI)
  from normalized_opexYear [OF assms] obtain o' where o: "opexYear i = Fin o'"
    by blast
  have split: "js_gt S (Fin o') \<longleftrightarrow> \<not> (js_le S (Fin o') \<or> Number_isNaN S)" for S
    by (cases S) (auto simp: js_gt_def js_le_def)
  show "Number_isNaN (paybackYears (calc i)) \<longleftrightarrow>
      js_le (savedSEK (calc i)) (opexYear i) \<or> Number_isNaN (savedSEK (calc i))"
  proof (cases "js_gt (savedSEK (calc i)) (opexYear i)")
    case True
    from normalized_payback [OF assms True] True show ?thesis
      using split [of "savedSEK (calc i)"] o by auto
  next
    case False
    then have "paybackYears (calc i) = NaN" by (simp add: calc_paybackYears)
    with False show ?thesis
      using split [of "savedSEK (calc i)"] o by simp
  qed
  assume one: "js_sub (savedSEK (calc i)) (opexYear i) = Fin 1"
  from normalized_capex [OF assms] obtain c where c: "capex i = Fin c" "0 \<le> c" "c \<le> 100000000"
    by blast
  from one o obtain s where s: "savedSEK (calc i) = Fin s"
    by (cases "savedSEK (calc i)") (simp_all add: js_sub_def)
  with one o have "mk (s - o') = Fin 1" by (simp add: js_sub_def)
  then have "s - o' = 1" by (simp add: mk_def split: if_splits)
  then have gt: "js_gt (savedSEK (calc i)) (opexYear i)"
    using s o by (simp add: js_gt_def)
  have "mk c = Fin c" using c by (intro mk_small) simp
  with gt one c show "paybackYears (calc i) = capex i"
    by (simp add: calc_paybackYears Math_max_def)
qed

theorem payback_boundary_witness:
  "normalized recoverable_input
   \<and> js_sub (savedSEK (calc recoverable_input)) (opexYear recoverable_input) = Fin 1
   \<and> paybackYears (calc recoverable_input) = Fin 350000
   \<and> \<not> js_le (savedSEK (calc recoverable_input)) (opexYear recoverable_input)"
proof -
  from payback_boundary [OF normalized_recoverable] recoverable_margin
  have "paybackYears (calc recoverable_input) = capex recoverable_input" by blast
  then show ?thesis
    using normalized_recoverable recoverable_margin
    by (simp add: recoverable_fields recoverable_savedSEK js_le_def)
qed

text \<open>
  Claim C4 says that every numeric field of the normalizer's output is finite, the override
  included, and that \<open>pricingMode\<close> is one of the two modes. An unparseable override is
  normalized to NaN: the claim fails on the default state with \<open>abc\<close> typed into the
  override field.
\<close>

theorem override_not_finite_counterexample:
  "vriPerYearOverride (parsed unparseable_state) = NaN
   \<and> \<not> (all_numeric_finite (parsed unparseable_state)
        \<and> mode_in_enum (pricingMode (parsed unparseable_state)))"
  by (simp add: parsed_def unparseable_state_def toNum_abc all_numeric_finite_def)

text \<open>
  Claim C4, amended. For every raw state, every bounded field of the normalizer's output is a
  finite number; \<open>vriPerYearOverride\<close> is a finite number or NaN, never an infinity; and
  \<open>pricingMode\<close> is the raw \<open>pricingMode\<close>, unchanged, so that it is one of the two modes
  whenever the raw one is.
\<close>

theorem normalizer_output:
  "list_all (\<lambda>f. Number_isFinite (get f (parsed st))) bounded_fields
   \<and> (Number_isFinite (vriPerYearOverride (parsed st)) \<or> vriPerYearOverride (parsed st) = NaN)
   \<and> pricingMode (parsed st) = pricingMode st
   \<and> (mode_in_enum (pricingMode st) \<longrightarrow> mode_in_enum (pricingMode (parsed st)))"
proof -
  have "Number_isFinite (get f (parsed st))" for f
    by (rule between_finite [of "lower f" "upper f"])
       (simp add: get_parsed between_clamp lower_le_upper)
  then have "list_all (\<lambda>f. Number_isFinite (get f (parsed st))) bounded_fields"
    by (simp add: list_all_iff)
  moreover have "pricingMode (parsed st) = pricingMode st"
    by (simp add: parsed_def Let_def)
  moreover have "Number_isFinite (vriPerYearOverride (parsed st))
      \<or> vriPerYearOverride (parsed st) = NaN"
    by (simp add: parsed_def Let_def)
  ultimately show ?thesis by simp
qed

theorem normalizer_output_witness:
  "mode_in_enum (pricingMode defaults) \<and> mode_in_enum (pricingMode (parsed defaults))
   \<and> list_all (\<lambda>f. Number_isFinite (get f (parsed defaults))) bounded_fields"
proof -
  have m: "mode_in_enum (pricingMode defaults)"
    by (simp add: defaults_def mode_in_enum_def)
  from normalizer_output [of defaults] m show ?thesis by simp
qed



text \<open>
  Claim C6 (pricing exclusivity). In mode \<open>perVRI\<close> the field \<open>savedSEK\<close> is the product
  \<open>avoided * costPerVRI\<close> and does not change when \<open>costPerBedDay\<close> alone is changed; in mode
  \<open>bedDays\<close> it is \<open>savedBedDays * costPerBedDay\<close> and does not change when \<open>costPerVRI\<close>
  alone is changed. This holds for every input, normalized or not; equality is identity of
  the values.
\<close>

theorem pricing_exclusivity:
  "(pricingMode i = str ''perVRI'' \<longrightarrow>
      savedSEK (calc i) = js_mul (avoided (calc i)) (costPerVRI i)
      \<and> (\<forall>c. savedSEK (calc (i\<lparr>costPerBedDay := c\<rparr>)) = savedSEK (calc i)))
   \<and> (pricingMode i = str ''bedDays'' \<longrightarrow>
      savedSEK (calc i) = js_mul (savedBedDays (calc i)) (costPerBedDay i)
      \<and> (\<forall>c. savedSEK (calc (i\<lparr>costPerVRI := c\<rparr>)) = savedSEK (calc i)))"
proof -
  have a: "avoided (calc (i\<lparr>costPerBedDay := c\<rparr>)) = avoided (calc i)"
    and b: "savedBedDays (calc (i\<lparr>costPerVRI := c\<rparr>)) = savedBedDays (calc i)" for c
    by (simp_all add: calc_savedBedDays calc_avoided calc_sinkGramNeg calc_gramNeg calc_vri
        calc_usedOverride calc_vriFromRate calc_bedDays)
  show ?thesis
    by (simp add: calc_savedSEK a b str_modes [symmetric])
qed

theorem pricing_exclusivity_witness:
  "pricingMode (parsed defaults) = str ''bedDays''
   \<and> savedSEK (calc ((parsed defaults)\<lparr>costPerVRI := Fin 1\<rparr>)) = savedSEK (calc (parsed defaults))
   \<and> pricingMode ((parsed defaults)\<lparr>pricingMode := str ''perVRI''\<rparr>) = str ''perVRI''
   \<and> savedSEK (calc ((parsed defaults)\<lparr>pricingMode := str ''perVRI'', costPerBedDay := Fin 1\<rparr>))
       = savedSEK (calc ((parsed defaults)\<lparr>pricingMode := str ''perVRI''\<rparr>))"
proof -
  have b: "pricingMode (parsed defaults) = str ''bedDays''"
    by (simp add: parsed_defaults)
  have v: "pricingMode ((parsed defaults)\<lparr>pricingMode := str ''perVRI''\<rparr>) = str ''perVRI''"
    by simp
  from pricing_exclusivity [of "parsed defaults"] b
  have 1: "savedSEK (calc ((parsed defaults)\<lparr>costPerVRI := Fin 1\<rparr>))
      = savedSEK (calc (parsed defaults))"
    by blast
  from pricing_exclusivity [of "(parsed defaults)\<lparr>pricingMode := str ''perVRI''\<rparr>"] v
  have 2: "savedSEK (calc ((parsed defaults)\<lparr>pricingMode := str ''perVRI'', costPerBedDay := Fin 1\<rparr>))
       = savedSEK (calc ((parsed defaults)\<lparr>pricingMode := str ''perVRI''\<rparr>))"
    by blast
  from b v 1 2 show ?thesis by blast
qed

text \<open>
  Claim C7 says that a larger \<open>effectPct\<close>, all else fixed, never gives a smaller \<open>avoided\<close>,
  \<open>savedBedDays\<close> or \<open>savedSEK\<close>. On the overflowing input above, \<open>effectPct = 0\<close> gives
  \<open>savedSEK = 0\<close> and \<open>effectPct = 100\<close> gives \<open>savedSEK = NaN\<close>, and \<open>NaN >= 0\<close> is false.
\<close>

theorem effect_monotone_counterexample:
  "normalized ((parsed overflow_state)\<lparr>effectPct := Fin 0\<rparr>)
   \<and> normalized (parsed overflow_state)
   \<and> parsed overflow_state = (parsed overflow_state)\<lparr>effectPct := Fin 0, effectPct := Fin 100\<rparr>
   \<and> js_le (Fin 0) (Fin 100)
   \<and> savedSEK (calc ((parsed overflow_state)\<lparr>effectPct := Fin 0\<rparr>)) = Fin 0
   \<and> savedSEK (calc (parsed overflow_state)) = NaN
   \<and> \<not> js_ge (savedSEK (calc (parsed overflow_state)))
          (savedSEK (calc ((parsed overflow_state)\<lparr>effectPct := Fin 0\<rparr>)))"
proof -
  have "parsed overflow_state = (parsed overflow_state)\<lparr>effectPct := Fin 0, effectPct := Fin 100\<rparr>"
    by (simp add: parsed_overflow_state)
  then show ?thesis
    using normalized_effectPct [OF normalized_overflow, of 0] normalized_overflow
    by (simp add: overflow_zero_effect overflow_savedSEK js_le_def js_ge_def)
qed

text \<open>
  Claim C7, amended (monotonicity in \<open>effectPct\<close>). For two normalized inputs that differ only
  in \<open>effectPct\<close>, the second having the larger or equal one, \<open>avoided\<close> and \<open>savedBedDays\<close> of
  the second are greater than or equal to those of the first, and so is \<open>savedSEK\<close> unless the
  \<open>savedSEK\<close> of the second input is NaN.
\<close>

theorem effect_monotone:
  assumes "normalized i" "normalized (i\<lparr>effectPct := e'\<rparr>)" "js_le (effectPct i) e'"
  shows "js_ge (avoided (calc (i\<lparr>effectPct := e'\<rparr>))) (avoided (calc i))
       \<and> js_ge (savedBedDays (calc (i\<lparr>effectPct := e'\<rparr>))) (savedBedDays (calc i))
       \<and> (\<not> Number_isNaN (savedSEK (calc (i\<lparr>effectPct := e'\<rparr>))) \<longrightarrow>
            js_ge (savedSEK (calc (i\<lparr>effectPct := e'\<rparr>))) (savedSEK (calc i)))"
proof -
  let ?j = "i\<lparr>effectPct := e'\<rparr>"
  have same: "sinkGramNeg (calc ?j) = sinkGramNeg (calc i)"
    by (rule sinkGramNeg_effectPct)
  from normalized_sinkGramNeg [OF assms(1)] obtain s
    where s: "sinkGramNeg (calc i) = Fin s" "0 \<le> s" "s < overflow_threshold"
    by (rule fin_nonnegE)
  from normalized_get [OF assms(1), of EffectPct] obtain e1
    where e1: "effectPct i = Fin e1" "0 \<le> e1" "e1 \<le> 100"
    by (cases "effectPct i") auto
  from normalized_get [OF assms(2), of EffectPct] obtain e2
    where e2: "e' = Fin e2" "0 \<le> e2" "e2 \<le> 100"
    by (cases e') auto
  from assms(3) e1 e2 have le: "e1 \<le> e2" by (auto simp: js_le_def)
  define a1 where "a1 = s * (e1 / 100)"
  define a2 where "a2 = s * (e2 / 100)"
  have av1: "avoided (calc i) = Fin a1"
    using scale_pct(1) [OF s(2,3) e1(2,3)] s e1 by (simp add: calc_avoided a1_def)
  have av2: "avoided (calc ?j) = Fin a2"
    using scale_pct(1) [OF s(2,3) e2(2,3)] s e2 same by (simp add: calc_avoided a2_def)
  have a: "0 \<le> a1" "a1 \<le> a2"
    using scale_pct(2) [OF s(2,3) e1(2,3)] le s(2)
    by (simp_all add: a1_def a2_def mult_left_mono divide_right_mono)
  from normalized_get [OF assms(1), of ExtraDaysPerVRI] obtain d
    where d: "extraDaysPerVRI i = Fin d" "0 \<le> d"
    by (cases "extraDaysPerVRI i") auto
  have sb1: "savedBedDays (calc i) = mk (a1 * d)"
    and sb2: "savedBedDays (calc ?j) = mk (a2 * d)"
    using av1 av2 d by (simp_all add: calc_savedBedDays)
  have sble: "js_le (mk (a1 * d)) (mk (a2 * d))"
    using a d(2) by (intro mk_mono mult_right_mono)
  have nn: "nonneg (mk (a1 * d))" "nonneg (mk (a2 * d))"
    using a d(2) by (auto intro!: nonneg_mk)
  from normalized_get [OF assms(1), of CostPerVRI] obtain cv
    where cv: "costPerVRI i = Fin cv" "0 \<le> cv"
    by (cases "costPerVRI i") auto
  from normalized_get [OF assms(1), of CostPerBedDay] obtain cb
    where cb: "costPerBedDay i = Fin cb" "0 \<le> cb"
    by (cases "costPerBedDay i") auto
  have sek: "js_le (savedSEK (calc i)) (savedSEK (calc ?j))"
    if ok: "\<not> Number_isNaN (savedSEK (calc ?j))"
  proof (cases "pricingMode i = str ''perVRI''")
    case True
    have "a1 * cv \<le> a2 * cv" using a cv(2) by (intro mult_right_mono)
    then show ?thesis using True av1 av2 cv by (simp add: calc_savedSEK mk_mono)
  next
    case False
    with ok sb2 cb have "\<not> Number_isNaN (js_mul (mk (a2 * d)) (Fin cb))"
      by (simp add: calc_savedSEK)
    from js_mul_mono [OF nn sble cb(2) this] False sb1 sb2 cb
    show ?thesis by (simp add: calc_savedSEK)
  qed
  from a have "js_le (Fin a1) (Fin a2)" by (auto simp: js_le_def)
  with av1 av2 sb1 sb2 sble sek show ?thesis
    by (simp add: js_ge_def)
qed

theorem effect_monotone_witness:
  "normalized (parsed defaults)
   \<and> normalized ((parsed defaults)\<lparr>effectPct := Fin 20\<rparr>)
   \<and> js_le (effectPct (parsed defaults)) (Fin 20)
   \<and> \<not> Number_isNaN (savedSEK (calc ((parsed defaults)\<lparr>effectPct := Fin 20\<rparr>)))
   \<and> js_ge (avoided (calc ((parsed defaults)\<lparr>effectPct := Fin 20\<rparr>)))
        (avoided (calc (parsed defaults)))
   \<and> js_ge (savedSEK (calc ((parsed defaults)\<lparr>effectPct := Fin 20\<rparr>)))
        (savedSEK (calc (parsed defaults)))"
proof -
  have n: "normalized ((parsed defaults)\<lparr>effectPct := Fin 20\<rparr>)"
    by (rule normalized_effectPct [OF normalized_parsed_defaults]) simp_all
  have le: "js_le (effectPct (parsed defaults)) (Fin 20)"
    by (simp add: parsed_defaults_fields js_le_def)
  have s: "sinkGramNeg (calc ((parsed defaults)\<lparr>effectPct := Fin 20\<rparr>)) = Fin 1.692432"
    by (simp add: sinkGramNeg_effectPct defaults_sinkGramNeg)
  have ok: "\<not> Number_isNaN (savedSEK (calc ((parsed defaults)\<lparr>effectPct := Fin 20\<rparr>)))"
    by (simp add: calc_savedSEK calc_savedBedDays calc_avoided s parsed_defaults_fields mk_tiny
        str_modes [symmetric])
  from effect_monotone [OF normalized_parsed_defaults n le] ok normalized_parsed_defaults n le
  show ?thesis by blast
qed

text \<open>
  Claim C8 (advisory notes). For every input and result, \<open>safetyNotes\<close> returns the messages
  of the rules whose conditions hold, in the declaration order of the five rules; each rule
  has its own fixed message, and a rule's message is in the list exactly when its condition
  holds, whatever the other rules do. In particular, with \<open>vriPer1000BedDays = 0\<close> and no
  override (NaN, zero or negative) the zero-rate note is present, and with
  \<open>sinkAttributablePct = 3\<close> the low-attribution note is present.
\<close>

theorem advisory_firing:
  "safetyNotes p r = map snd (filter fst (advisory_rules p r))
   \<and> map snd (advisory_rules p r) =
       [note_zero_rate, note_low_sink, note_low_effect, note_zero_bed_day_cost, note_zero_vri_cost]
   \<and> (\<forall>(c, m) \<in> set (advisory_rules p r). (m \<in> set (safetyNotes p r)) = c)
   \<and> (vriPer1000BedDays p = Fin 0
        \<and> (vriPerYearOverride p = NaN \<or> (\<exists>x. vriPerYearOverride p = Fin x \<and> x \<le> 0)) \<longrightarrow>
        note_zero_rate \<in> set (safetyNotes p (calc p)))
   \<and> (sinkAttributablePct p = Fin 3 \<longrightarrow> note_low_sink \<in> set (safetyNotes p (calc p)))"
proof (intro conjI impI)
  show "safetyNotes p r = map snd (filter fst (advisory_rules p r))"
    by (rule safetyNotes_rules)
  show "map snd (advisory_rules p r) =
      [note_zero_rate, note_low_sink, note_low_effect, note_zero_bed_day_cost, note_zero_vri_cost]"
    by (simp add: advisory_rules_def)
  show "\<forall>(c, m) \<in> set (advisory_rules p r). (m \<in> set (safetyNotes p r)) = c"
    unfolding safetyNotes_rules by (rule rule_fires)
  show "note_zero_rate \<in> set (safetyNotes p (calc p))"
    if "vriPer1000BedDays p = Fin 0
        \<and> (vriPerYearOverride p = NaN \<or> (\<exists>x. vriPerYearOverride p = Fin x \<and> x \<le> 0))"
  proof -
    from that have "\<not> usedOverride (calc p)"
      by (auto simp: calc_usedOverride js_gt_def)
    with that show ?thesis
      by (simp add: safetyNotes_def Let_def)
  qed
  show "note_low_sink \<in> set (safetyNotes p (calc p))" if "sinkAttributablePct p = Fin 3"
    using that by (simp add: safetyNotes_def Let_def js_le_def)
qed

theorem advisory_firing_witness:
  "vriPer1000BedDays ((parsed defaults)\<lparr>vriPer1000BedDays := Fin 0, sinkAttributablePct := Fin 3\<rparr>)
     = Fin 0
   \<and> vriPerYearOverride ((parsed defaults)\<lparr>vriPer1000BedDays := Fin 0, sinkAttributablePct := Fin 3\<rparr>)
     = Fin 0
   \<and> sinkAttributablePct ((parsed defaults)\<lparr>vriPer1000BedDays := Fin 0, sinkAttributablePct := Fin 3\<rparr>)
     = Fin 3
   \<and> note_zero_rate \<in> set (safetyNotes
         ((parsed defaults)\<lparr>vriPer1000BedDays := Fin 0, sinkAttributablePct := Fin 3\<rparr>)
         (calc ((parsed defaults)\<lparr>vriPer1000BedDays := Fin 0, sinkAttributablePct := Fin 3\<rparr>)))
   \<and> note_low_sink \<in> set (safetyNotes
         ((parsed defaults)\<lparr>vriPer1000BedDays := Fin 0, sinkAttributablePct := Fin 3\<rparr>)
         (calc ((parsed defaults)\<lparr>vriPer1000BedDays := Fin 0, sinkAttributablePct := Fin 3\<rparr>)))"
proof -
  let ?p = "(parsed defaults)\<lparr>vriPer1000BedDays := Fin 0, sinkAttributablePct := Fin 3\<rparr>"
  have h: "vriPer1000BedDays ?p = Fin 0" "vriPerYearOverride ?p = Fin 0"
    "sinkAttributablePct ?p = Fin 3"
    by (simp_all add: parsed_defaults_fields)
  then have x: "\<exists>x. vriPerYearOverride ?p = Fin x \<and> x \<le> 0" by simp
  from advisory_firing [of ?p "calc ?p"] h(1) x
  have 1: "note_zero_rate \<in> set (safetyNotes ?p (calc ?p))" by blast
  from advisory_firing [of ?p "calc ?p"] h(3)
  have 2: "note_low_sink \<in> set (safetyNotes ?p (calc ?p))" by blast
  from h 1 2 show ?thesis by blast
qed

text \<open>
  Claim C9 (payback bounds). For a normalized input, a finite \<open>paybackYears\<close> lies between 0
  and \<open>capex\<close>: it is only computed when \<open>savedSEK > opexYear\<close>, the divisor
  \<open>Math.max(1, savedSEK - opexYear)\<close> is then at least 1, and \<open>capex\<close> is not negative.
\<close>

theorem payback_bounds:
  assumes "normalized i" "Number_isFinite (paybackYears (calc i))"
  shows "js_le (Fin 0) (paybackYears (calc i)) \<and> js_le (paybackYears (calc i)) (capex i)
       \<and> js_le (Fin 1) (Math_max (Fin 1) (js_sub (savedSEK (calc i)) (opexYear i)))"
proof -
  from assms(2) have gt: "js_gt (savedSEK (calc i)) (opexYear i)"
    by (simp add: calc_paybackYears split: if_splits)
  from normalized_payback [OF assms(1) gt]
  have 1: "js_le (Fin 0) (paybackYears (calc i)) \<and> js_le (paybackYears (calc i)) (capex i)"
    by (auto simp: js_le_def)
  from normalized_opexYear [OF assms(1)] obtain o' where o: "opexYear i = Fin o'"
    by blast
  have "js_le (Fin 1) (Math_max (Fin 1) (js_sub S (Fin o')))" if "js_gt S (Fin o')" for S
    using that by (cases S) (auto simp: js_gt_def js_le_def js_sub_def Math_max_def mk_def)
  with gt o 1 show ?thesis by simp
qed

theorem payback_bounds_witness:
  "normalized recoverable_input
   \<and> Number_isFinite (paybackYears (calc recoverable_input))
   \<and> js_le (Fin 0) (paybackYears (calc recoverable_input))
   \<and> js_le (paybackYears (calc recoverable_input)) (Fin 350000)"
proof -
  have f: "Number_isFinite (paybackYears (calc recoverable_input))"
    by (simp add: calc_paybackYears recoverable_savedSEK recoverable_fields js_gt_def js_sub_def
        Math_max_def mk_tiny)
  from payback_bounds [OF normalized_recoverable f] normalized_recoverable f
  show ?thesis by (simp add: recoverable_fields)
qed

text \<open>
  Claim C10 (blank fields). The empty string parses to the number 0, not to NaN. A blank
  bounded field is therefore normalized to \<open>max(lo, 0)\<close>, which is 1 for \<open>capexAmortYears\<close>
  and 0 for every other bounded field. A blank \<open>vriPerYearOverride\<close> is normalized to 0, the
  normalized input is the one obtained from an entered \<open>0\<close>, and the calculation takes the
  rate path with \<open>usedOverride\<close> false.
\<close>

theorem blank_field:
  "toNum (Str []) = Fin 0
   \<and> (get f st = Str [] \<longrightarrow>
        get f (parsed st) = Fin (max (lower f) 0)
        \<and> get f (parsed st) = (if f = CapexAmortYears then Fin 1 else Fin 0))
   \<and> (vriPerYearOverride st = Str [] \<longrightarrow>
        vriPerYearOverride (parsed st) = Fin 0
        \<and> parsed st = parsed (st\<lparr>vriPerYearOverride := Str (str ''0'')\<rparr>)
        \<and> parsed st = parsed (st\<lparr>vriPerYearOverride := Num (Fin 0)\<rparr>)
        \<and> \<not> usedOverride (calc (parsed st))
        \<and> vri (calc (parsed st)) = vriFromRate (calc (parsed st)))"
proof (intro conjI impI)
  show "toNum (Str []) = Fin 0" by (rule toNum_empty)
next
  assume "get f st = Str []"
  then have g: "get f (parsed st) = clamp (Fin 0) (Fin (lower f)) (Fin (upper f))"
    by (simp add: get_parsed toNum_empty)
  then show "get f (parsed st) = Fin (max (lower f) 0)"
    by (cases f) (simp_all add: clamp_Fin)
  from g show "get f (parsed st) = (if f = CapexAmortYears then Fin 1 else Fin 0)"
    by (cases f) (simp_all add: clamp_Fin)
next
  assume b: "vriPerYearOverride st = Str []"
  then show o: "vriPerYearOverride (parsed st) = Fin 0"
    by (simp add: parsed_def Let_def toNum_empty)
  from b show "parsed st = parsed (st\<lparr>vriPerYearOverride := Str (str ''0'')\<rparr>)"
    by (simp add: parsed_def Let_def toNum_empty toNum_0)
  from b show "parsed st = parsed (st\<lparr>vriPerYearOverride := Num (Fin 0)\<rparr>)"
    by (simp add: parsed_def Let_def toNum_empty toNum_Num_Fin)
  from o show u: "\<not> usedOverride (calc (parsed st))"
    by (simp add: calc_usedOverride js_gt_def)
  then show "vri (calc (parsed st)) = vriFromRate (calc (parsed st))"
    by (simp add: calc_vri)
qed

theorem blank_field_witness:
  "get CapexAmortYears (defaults\<lparr>capexAmortYears := Str []\<rparr>) = Str []
   \<and> capexAmortYears (parsed (defaults\<lparr>capexAmortYears := Str []\<rparr>)) = Fin 1
   \<and> vriPerYearOverride defaults = Str []
   \<and> vriPerYearOverride (parsed defaults) = Fin 0
   \<and> \<not> usedOverride (calc (parsed defaults))"
proof -
  have g: "get CapexAmortYears (defaults\<lparr>capexAmortYears := Str []\<rparr>) = Str []"
    by simp
  have o: "vriPerYearOverride defaults = Str []"
    by (simp add: defaults_def)
  from blank_field [of CapexAmortYears "defaults\<lparr>capexAmortYears := Str []\<rparr>"] g
  have 1: "capexAmortYears (parsed (defaults\<lparr>capexAmortYears := Str []\<rparr>)) = Fin 1"
    by simp
  from blank_field [of Beds defaults] o
  have 2: "vriPerYearOverride (parsed defaults) = Fin 0 \<and> \<not> usedOverride (calc (parsed defaults))"
    by blast
  from g o 1 2 show ?thesis by blast
qed

end
